theory Spec2Isabelle
  imports Complex_Main "HOL-Library.AList"
begin

section \<open>Adsorption workflows of matmethods: the data\<close>

text \<open>
  The module \<^verbatim>\<open>matmethods/vasp/workflows/base/adsorption.py\<close> builds lists of job
  descriptors (Fireworks) from chemistry inputs. It reads and writes Python dictionaries,
  calls the geometry library (pymatgen) and the job constructors of matmethods, and
  returns a \<^verbatim>\<open>Workflow\<close>. A finite float is the real number it represents; the
  floating-point operations the module performs on coordinates and lattice parameters
  are operations of the library, not exact arithmetic.
\<close>

subsection \<open>Python values, dictionaries and errors\<close>

datatype py_value =
    VNone
  | VBool bool
  | VInt int
  | VFloat real
  | VStr string
  | VList "py_value list"
  | VDict "(string \<times> py_value) list"

type_synonym py_dict = "(string \<times> py_value) list"

text \<open>\<^verbatim>\<open>d.update(other)\<close>: every key of \<open>other\<close> is set in \<open>d\<close>, in place.\<close>

definition dict_update :: "py_dict \<Rightarrow> py_dict \<Rightarrow> py_dict" where
  "dict_update d other = fold (\<lambda>kv. AList.update (fst kv) (snd kv)) other d"

text \<open>\<^verbatim>\<open>d.get(k, None)\<close> and the truth value Python gives an object in \<^verbatim>\<open>not x\<close>.\<close>

definition dict_get :: "py_dict \<Rightarrow> string \<Rightarrow> py_value" where
  "dict_get d k = (case map_of d k of None \<Rightarrow> VNone | Some v \<Rightarrow> v)"

fun truthy :: "py_value \<Rightarrow> bool" where
  "truthy VNone = False"
| "truthy (VBool b) = b"
| "truthy (VInt i) = (i \<noteq> 0)"
| "truthy (VFloat x) = (x \<noteq> 0)"
| "truthy (VStr s) = (s \<noteq> [])"
| "truthy (VList xs) = (xs \<noteq> [])"
| "truthy (VDict d) = (d \<noteq> [])"

text \<open>
  The exceptions the two builders can raise. \<open>IntInvalidLiteral\<close> and \<open>MaxEmptySequence\<close>
  are the \<^verbatim>\<open>ValueError\<close>s of the built-ins \<^verbatim>\<open>int\<close> and \<^verbatim>\<open>max\<close>; \<open>ValueError\<close> is the one
  the module raises itself, with its message; \<open>RoundError\<close> is what \<^verbatim>\<open>round\<close> raises on
  an infinite or undefined quotient; \<open>LinAlgError\<close> is numpy's error on a singular
  lattice matrix; \<open>NoSitesError\<close> is the \<^verbatim>\<open>ValueError\<close> pymatgen raises when an input set
  sorts a structure that has no sites.
\<close>

datatype error =
    IntInvalidLiteral char
  | MaxEmptySequence
  | ValueError string
  | KeyError string
  | AttributeError string
  | RoundError
  | LinAlgError
  | NoSitesError

subsection \<open>Strings of integers\<close>

text \<open>\<^verbatim>\<open>str(i)\<close> of an integer, in decimal.\<close>

fun str_nat :: "nat \<Rightarrow> string" where
  "str_nat n =
     (if n < 10 then [''0123456789'' ! n]
      else str_nat (n div 10) @ [''0123456789'' ! (n mod 10)])"

declare str_nat.simps [simp del]

definition str_int :: "int \<Rightarrow> string" where
  "str_int i = (if i < 0 then CHR ''-'' # str_nat (nat (- i)) else str_nat (nat i))"

text \<open>
  \<^verbatim>\<open>int(c)\<close> of a one-character string: the digit's value, or \<^verbatim>\<open>ValueError\<close>. (Characters
  are bytes here; Python also reads the decimal digits of other scripts.)
\<close>

definition digit_value :: "char \<Rightarrow> int" where
  "digit_value c = int (of_char c) - 48"

definition is_digit :: "char \<Rightarrow> bool" where
  "is_digit c = (48 \<le> (of_char c :: nat) \<and> (of_char c :: nat) \<le> 57)"

definition py_int :: "char \<Rightarrow> error + int" where
  "py_int c = (if is_digit c then Inr (digit_value c) else Inl (IntInvalidLiteral c))"

text \<open>A list comprehension whose element expression can raise: the first error wins.\<close>

fun comprehension :: "('a \<Rightarrow> error + 'b) \<Rightarrow> 'a list \<Rightarrow> error + 'b list" where
  "comprehension f [] = Inr []"
| "comprehension f (x # xs) =
     (case f x of
        Inl e \<Rightarrow> Inl e
      | Inr y \<Rightarrow> (case comprehension f xs of Inl e \<Rightarrow> Inl e | Inr ys \<Rightarrow> Inr (y # ys)))"

text \<open>\<^verbatim>\<open>max(xs)\<close> of a list: \<^verbatim>\<open>ValueError\<close> on the empty list.\<close>

fun py_max :: "int list \<Rightarrow> error + int" where
  "py_max [] = Inl MaxEmptySequence"
| "py_max (x # xs) = Inr (fold max xs x)"

text \<open>
  \<^verbatim>\<open>round(x)\<close> of a finite float (Python 3): the integer nearest to the value of \<open>x\<close>, a
  tie going to the even one. Python 2 sends a tie away from zero; both give a nearest
  integer.
\<close>

definition py_round :: "real \<Rightarrow> int" where
  "py_round x =
     (let f = \<lfloor>x\<rfloor>; d = x - of_int f
      in if d < 1 / 2 then f
         else if 1 / 2 < d then f + 1
         else if even f then f else f + 1)"

subsection \<open>Structures, slabs, molecules and input sets\<close>

type_synonym vec3 = "real \<times> real \<times> real"

text \<open>
  A lattice by its parameters: the lengths \<^verbatim>\<open>a\<close>, \<^verbatim>\<open>b\<close>, \<^verbatim>\<open>c\<close> of its three vectors and
  the angles between them, in degrees. \<^verbatim>\<open>Lattice.cubic(a)\<close> is the matrix with \<open>a\<close> on
  the diagonal: three vectors of length \<open>\<bar>a\<bar>\<close> at right angles.
\<close>

record Lattice =
  abc :: vec3
  angles :: vec3

definition lattice_a :: "Lattice \<Rightarrow> real" where
  "lattice_a l = fst (abc l)"

definition lattice_b :: "Lattice \<Rightarrow> real" where
  "lattice_b l = fst (snd (abc l))"

definition Lattice_cubic :: "real \<Rightarrow> Lattice" where
  "Lattice_cubic a = \<lparr>abc = (\<bar>a\<bar>, \<bar>a\<bar>, \<bar>a\<bar>), angles = (90, 90, 90)\<rparr>"

record site =
  species_string :: string
  frac_coords :: vec3
  properties :: py_dict

record Structure =
  lattice :: Lattice
  sites :: "site list"

text \<open>A slab is a structure that knows the Miller index and the shift it was cut with.\<close>

record Slab =
  slab_structure :: Structure
  miller_index :: "int list"
  shift :: real

text \<open>A molecule: one species and one Cartesian position per atom.\<close>

type_synonym Molecule = "(string \<times> vec3) list"

definition species_and_occu :: "Molecule \<Rightarrow> string list" where
  "species_and_occu m = map fst m"

definition cart_coords :: "Molecule \<Rightarrow> vec3 list" where
  "cart_coords m = map snd m"

text \<open>
  An input set is the library class it was built from and the arguments it was built
  with: \<^verbatim>\<open>MVLSlabSet(structure, bulk, user_incar_settings)\<close>,
  \<^verbatim>\<open>MPRelaxSet(structure, user_incar_settings)\<close>, \<^verbatim>\<open>DictSet(structure, config_dict)\<close>.
\<close>

datatype input_set =
    MVLSlabSet Structure bool py_dict
  | MPRelaxSet Structure py_dict
  | DictSet Structure py_dict

text \<open>
  The operations of pymatgen the module calls, as parameters: the theorems hold for
  every library. \<open>incar\<close> and \<open>config_dict\<close> are the attributes of an input set,
  \<open>generate_adsorption_structures\<close> is the method of
  \<^verbatim>\<open>AdsorbateSiteFinder(slab, selective_dynamics=True)\<close>, and the two formulas are
  \<^verbatim>\<open>composition.reduced_formula\<close> of a structure and of a molecule.

  The floating-point operations are parameters too. \<open>fdiv x y\<close> is the float quotient
  \<^verbatim>\<open>x / y\<close>, \<open>None\<close> when it is infinite or undefined; \<open>fsub\<close> and \<open>fadd\<close> are float
  subtraction and addition; \<open>np_average\<close> is \<^verbatim>\<open>np.average(coords, axis=0)\<close>, the float
  mean of each column; \<open>get_fractional_coords a c\<close> is the fractional position of the
  Cartesian point \<open>c\<close> in the lattice \<^verbatim>\<open>Lattice.cubic(a)\<close>, \<open>None\<close> when the lattice matrix
  is singular; \<open>to_unit_cell\<close> is what a periodic site does to a fractional coordinate
  to bring it back into the unit cell.
\<close>

record pymatgen =
  get_conventional_standard_structure :: "Structure \<Rightarrow> Structure"
  incar :: "input_set \<Rightarrow> py_dict"
  config_dict :: "input_set \<Rightarrow> py_dict"
  generate_decorated_slabs ::
    "Structure \<Rightarrow> int \<Rightarrow> real \<Rightarrow> real \<Rightarrow> int \<Rightarrow> bool \<Rightarrow> Slab list"
  generate_adsorption_structures :: "Slab \<Rightarrow> Molecule \<Rightarrow> Structure list"
  get_sorted_structure :: "Structure \<Rightarrow> Structure"
  reduced_formula :: "Structure \<Rightarrow> string"
  molecule_reduced_formula :: "Molecule \<Rightarrow> string"
  fdiv :: "real \<Rightarrow> real \<Rightarrow> real option"
  fsub :: "real \<Rightarrow> real \<Rightarrow> real"
  fadd :: "real \<Rightarrow> real \<Rightarrow> real"
  np_average :: "vec3 list \<Rightarrow> vec3"
  get_fractional_coords :: "real \<Rightarrow> vec3 \<Rightarrow> vec3 option"
  to_unit_cell :: "real \<Rightarrow> real"

text \<open>
  \<^verbatim>\<open>round(x / y)\<close> on floats: the float quotient, rounded; on an infinite or undefined
  quotient \<^verbatim>\<open>round\<close> raises.
\<close>

definition round_ratio :: "pymatgen \<Rightarrow> real \<Rightarrow> real \<Rightarrow> error + int" where
  "round_ratio lib x y =
     (case fdiv lib x y of None \<Rightarrow> Inl RoundError | Some q \<Rightarrow> Inr (py_round q))"

text \<open>
  \<^verbatim>\<open>struct.add_site_property(name, values)\<close>: site \<open>i\<close> gets \<open>values[i]\<close> under \<open>name\<close>. The
  module passes one value per site.
\<close>

definition add_site_property :: "string \<Rightarrow> py_value list \<Rightarrow> Structure \<Rightarrow> Structure" where
  "add_site_property name vals s =
     s\<lparr>sites := map2 (\<lambda>st v. st\<lparr>properties := AList.update name v (properties st)\<rparr>)
                    (sites s) vals\<rparr>"

subsection \<open>Job descriptors and workflows\<close>

record slab_trans_params =
  tp_miller_index :: "int list"
  tp_min_slab_size :: real
  tp_min_vacuum_size :: real
  tp_shift :: real
  tp_center_slab :: bool
  tp_max_normal_search :: int

text \<open>
  One entry of a job's \<^verbatim>\<open>transformation_params\<close>: the keyword arguments of the slab
  cut, the \<^verbatim>\<open>scaling_matrix\<close> of the supercell, the \<^verbatim>\<open>species\<close> and \<^verbatim>\<open>coords\<close> of the
  inserted sites, and the \<^verbatim>\<open>site_properties\<close> (kept here site by site).
\<close>

datatype transformation_param =
    SlabParams slab_trans_params
  | SupercellParams "int list list"
  | InsertSitesParams "string list" "vec3 list"
  | SitePropertiesParams "py_dict list"

text \<open>
  A job descriptor. A parent is a reference to another job object of the list being
  built; the model writes it as that job's position in the list.
\<close>

record firework =
  fw_class :: string
  fw_name :: "string option"
  fw_structure :: Structure
  transformations :: "string list"
  transformation_params :: "transformation_param list"
  copy_vasp_outputs :: bool
  fw_vasp_input_set :: input_set
  fw_vasp_cmd :: string
  fw_db_file :: "string option"
  parents :: "nat list"

record workflow =
  wf_fws :: "firework list"
  wf_name :: string

text \<open>
  Modelled from the spec: the constructors \<^verbatim>\<open>OptimizeFW\<close> and \<^verbatim>\<open>TransmuterFW\<close> of
  \<^verbatim>\<open>matmethods.vasp.fireworks.core\<close> and \<^verbatim>\<open>Workflow\<close> of the execution engine are not
  among the sources. A job descriptor holds what it is constructed with (name, target
  structure, transformation list and parameters, input set, command, credentials path,
  parent references); a job constructed without \<^verbatim>\<open>parents\<close> has none.
\<close>

definition OptimizeFW :: "Structure \<Rightarrow> input_set \<Rightarrow> string \<Rightarrow> string option \<Rightarrow> firework" where
  "OptimizeFW s v cmd db =
     \<lparr>fw_class = ''OptimizeFW'', fw_name = None, fw_structure = s, transformations = [],
      transformation_params = [], copy_vasp_outputs = False, fw_vasp_input_set = v,
      fw_vasp_cmd = cmd, fw_db_file = db, parents = []\<rparr>"

definition TransmuterFW ::
  "string \<Rightarrow> Structure \<Rightarrow> string list \<Rightarrow> transformation_param list \<Rightarrow> bool \<Rightarrow>
   string option \<Rightarrow> string \<Rightarrow> nat list \<Rightarrow> input_set \<Rightarrow> firework" where
  "TransmuterFW name s ts tps cp db cmd ps v =
     \<lparr>fw_class = ''TransmuterFW'', fw_name = Some name, fw_structure = s,
      transformations = ts, transformation_params = tps, copy_vasp_outputs = cp,
      fw_vasp_input_set = v, fw_vasp_cmd = cmd, fw_db_file = db, parents = ps\<rparr>"

definition Workflow :: "firework list \<Rightarrow> string \<Rightarrow> workflow" where
  "Workflow jobs name = \<lparr>wf_fws = jobs, wf_name = name\<rparr>"

section \<open>The adsorption workflow builder\<close>

text \<open>
  The arguments of \<^verbatim>\<open>get_wf_adsorption\<close> (\<^verbatim>\<open>slab_gen_config\<close>, which the function never
  reads, is left out). \<open>adsorbate_config\<close> is the dictionary from Miller-index string to
  the molecules requested on that surface, in key order. \<open>slab_incar_params\<close> and
  \<open>ads_incar_params\<close> are the contents, at the call, of the two dictionary objects
  the function updates in place.
\<close>

record adsorption_args =
  arg_structure :: Structure
  adsorbate_config :: "(string \<times> Molecule list) list"
  vasp_input_set :: "input_set option"
  min_slab_size :: real
  min_vacuum_size :: real
  center_slab :: bool
  max_normal_search :: int
  vasp_cmd :: string
  db_file :: "string option"
  conventional :: bool
  slab_incar_params :: py_dict
  ads_incar_params :: py_dict
  auto_dipole :: bool

text \<open>
  What the function holds while it runs: the contents of the two dictionaries and the
  local list \<^verbatim>\<open>fws\<close> of the jobs constructed so far. An input set built from a
  dictionary records the dictionary's contents at that moment; within one call the
  dictionary no longer changes once an input set has been built from it (every later
  update writes the same keys with the same values).
\<close>

record build_state =
  st_slab_incar_params :: py_dict
  st_ads_incar_params :: py_dict
  fws :: "firework list"

text \<open>A \<^verbatim>\<open>for\<close> loop over a list whose body may raise: the loop stops at the first error.\<close>

fun for_each :: "('a \<Rightarrow> 's \<Rightarrow> error option \<times> 's) \<Rightarrow> 'a list \<Rightarrow> 's \<Rightarrow> error option \<times> 's" where
  "for_each body [] s = (None, s)"
| "for_each body (x # xs) s =
     (case body x s of
        (Some e, s') \<Rightarrow> (Some e, s')
      | (None, s') \<Rightarrow> for_each body xs s')"

text \<open>\<^verbatim>\<open>''.join([str(i) for i in slab.miller_index])\<close>\<close>

definition mi_string_of :: "Slab \<Rightarrow> string" where
  "mi_string_of slab = concat (map str_int (miller_index slab))"

text \<open>\<^verbatim>\<open>max([int(i) for i in ''.join(adsorbate_config.keys())])\<close>\<close>

definition max_index_of :: "string list \<Rightarrow> error + int" where
  "max_index_of keys =
     (case comprehension py_int (concat keys) of
        Inl e \<Rightarrow> Inl e
      | Inr ds \<Rightarrow> py_max ds)"

text \<open>
  How \<^verbatim>\<open>str.format\<close> prints a list of strings (Python 3; the strings here are made of
  digits and minus signs, which \<^verbatim>\<open>repr\<close> leaves as they are).
\<close>

definition py_repr_str :: "string \<Rightarrow> string" where
  "py_repr_str s = [CHR 0x27] @ s @ [CHR 0x27]"

fun join :: "string \<Rightarrow> string list \<Rightarrow> string" where
  "join sep [] = []"
| "join sep [x] = x"
| "join sep (x # y # ys) = x @ sep @ join sep (y # ys)"

definition py_repr_str_list :: "string list \<Rightarrow> string" where
  "py_repr_str_list xs = ''['' @ join '', '' (map py_repr_str xs) @ '']''"

definition miller_index_error :: "string list \<Rightarrow> error" where
  "miller_index_error mi_strings =
     ValueError (''Miller index not in generated slab list. Unique slabs are ''
                 @ py_repr_str_list mi_strings)"

definition dipole_dict :: py_dict where
  "dipole_dict =
     [(''LDIPOL'', VStr ''True''), (''IDIPOL'', VInt 3),
      (''DIPOL'', VList [VInt 0, VInt 0, VFloat (1 / 2)])]"

definition trans_ads :: "string list" where
  "trans_ads = [''SlabTransformation'', ''SupercellTransformation'',
                ''InsertSitesTransformation'', ''AddSitePropertyTransformation'']"

text \<open>
  \<^verbatim>\<open>SupercellTransformation.from_scaling_factors(a, b)\<close>: the third factor defaults to 1.
\<close>

definition from_scaling_factors :: "int \<Rightarrow> int \<Rightarrow> int list list" where
  "from_scaling_factors sa sb = [[sa, 0, 0], [0, sb, 0], [0, 0, 1]]"

text \<open>
  \<^verbatim>\<open>[site for site in struct if site.properties["surface_properties"]=="adsorbate"]\<close>:
  a site without the property raises \<^verbatim>\<open>KeyError\<close>.
\<close>

fun ads_sites_of :: "site list \<Rightarrow> error + site list" where
  "ads_sites_of [] = Inr []"
| "ads_sites_of (st # rest) =
     (case map_of (properties st) ''surface_properties'' of
        None \<Rightarrow> Inl (KeyError ''surface_properties'')
      | Some v \<Rightarrow>
          (case ads_sites_of rest of
             Inl e \<Rightarrow> Inl e
           | Inr r \<Rightarrow> Inr (if v = VStr ''adsorbate'' then st # r else r)))"

text \<open>The slab-cut parameters of lines 147-152.\<close>

definition slab_trans_params_of :: "adsorption_args \<Rightarrow> Slab \<Rightarrow> slab_trans_params" where
  "slab_trans_params_of a slab =
     \<lparr>tp_miller_index = miller_index slab,
      tp_min_slab_size = min_slab_size a,
      tp_min_vacuum_size = min_vacuum_size a,
      tp_shift = shift slab,
      tp_center_slab = True,
      tp_max_normal_search = max_normal_search a\<rparr>"

text \<open>The body of \<^verbatim>\<open>for struct in structures\<close> (lines 173-201).\<close>

definition struct_body ::
  "pymatgen \<Rightarrow> adsorption_args \<Rightarrow> Structure \<Rightarrow> Slab \<Rightarrow> string \<Rightarrow> Molecule \<Rightarrow>
   Structure \<Rightarrow> build_state \<Rightarrow> error option \<times> build_state" where
  "struct_body lib a structure slab mi_string molecule struct0 s =
     (let sorted = get_sorted_structure lib struct0;
          ads_fw_name = molecule_reduced_formula lib molecule @ ''-''
                        @ reduced_formula lib structure @ ''_'' @ mi_string
                        @ '' adsorbate optimization'';
          struct = add_site_property ''velocities''
                     (replicate (length (sites sorted)) (VList [VFloat 0, VFloat 0, VFloat 0]))
                     sorted
      in case round_ratio lib (lattice_a (lattice struct))
                          (lattice_a (lattice (slab_structure slab))) of
           Inl e \<Rightarrow> (Some e, s)
         | Inr sa \<Rightarrow>
        (case round_ratio lib (lattice_b (lattice struct))
                          (lattice_b (lattice (slab_structure slab))) of
           Inl e \<Rightarrow> (Some e, s)
         | Inr sb \<Rightarrow>
        (case ads_sites_of (sites struct) of
           Inl e \<Rightarrow> (Some e, s)
         | Inr ads_sites \<Rightarrow>
             (let trans_ads_params =
                    [SlabParams (slab_trans_params_of a slab),
                     SupercellParams (from_scaling_factors sa sb),
                     InsertSitesParams (map species_string ads_sites)
                                       (map frac_coords ads_sites),
                     SitePropertiesParams (map properties (sites struct))];
                  vis_ads = MVLSlabSet structure False (st_ads_incar_params s)
              in (None, s\<lparr>fws := fws s @
                    [TransmuterFW ads_fw_name structure trans_ads trans_ads_params True
                       (db_file a) (vasp_cmd a) [0] vis_ads]\<rparr>)))))"

text \<open>The body of \<^verbatim>\<open>for molecule in adsorbate_config[mi_string]\<close> (lines 171-201).\<close>

definition molecule_body ::
  "pymatgen \<Rightarrow> adsorption_args \<Rightarrow> Structure \<Rightarrow> Slab \<Rightarrow> string \<Rightarrow> Molecule \<Rightarrow>
   build_state \<Rightarrow> error option \<times> build_state" where
  "molecule_body lib a structure slab mi_string molecule s =
     for_each (struct_body lib a structure slab mi_string molecule)
       (generate_adsorption_structures lib slab molecule) s"

text \<open>The body of \<^verbatim>\<open>for slab in slabs\<close> (lines 135-201).\<close>

definition slab_body ::
  "pymatgen \<Rightarrow> adsorption_args \<Rightarrow> Structure \<Rightarrow> Slab \<Rightarrow> build_state \<Rightarrow>
   error option \<times> build_state" where
  "slab_body lib a structure slab s =
     (let mi_string = mi_string_of slab
      in case map_of (adsorbate_config a) mi_string of
           None \<Rightarrow> (None, s)
         | Some molecules \<Rightarrow>
             (let s1 = (if auto_dipole a
                        then s\<lparr>st_slab_incar_params :=
                                 dict_update (st_slab_incar_params s) dipole_dict,
                               st_ads_incar_params :=
                                 dict_update (st_ads_incar_params s) dipole_dict\<rparr>
                        else s);
                  fw_name = reduced_formula lib (slab_structure slab) @ ''_'' @ mi_string
                            @ '' slab optimization'';
                  vis_slab = MVLSlabSet (slab_structure slab) False (st_slab_incar_params s1);
                  s2 = s1\<lparr>fws := fws s1 @
                         [TransmuterFW fw_name structure [''SlabTransformation'']
                            [SlabParams (slab_trans_params_of a slab)] True
                            (db_file a) (vasp_cmd a) [0] vis_slab]\<rparr>
              in for_each (molecule_body lib a structure slab mi_string) molecules s2))"

text \<open>
  Lines 127-203: everything after the slabs have been enumerated. The result comes
  with the state the function ends in.
\<close>

definition wf_from_slabs ::
  "pymatgen \<Rightarrow> adsorption_args \<Rightarrow> Structure \<Rightarrow> build_state \<Rightarrow> Slab list \<Rightarrow>
   (error + workflow) \<times> build_state" where
  "wf_from_slabs lib a structure s0 slabs =
     (let mi_strings = map mi_string_of slabs
      in if list_ex (\<lambda>key. key \<notin> set mi_strings) (map fst (adsorbate_config a))
         then (Inl (miller_index_error mi_strings), s0)
         else (case for_each (slab_body lib a structure) slabs s0 of
                 (Some e, s) \<Rightarrow> (Inl e, s)
               | (None, s) \<Rightarrow>
                   (Inr (Workflow (fws s)
                           (reduced_formula lib structure @ '':Adsorbate calculations'')), s)))"

text \<open>Lines 110-112: the structure every later step works on.\<close>

definition normalized_structure :: "pymatgen \<Rightarrow> adsorption_args \<Rightarrow> Structure" where
  "normalized_structure lib a =
     (if conventional a then get_conventional_standard_structure lib (arg_structure a)
      else arg_structure a)"

text \<open>Lines 113-119: the bulk input set, the LDAU overrides and the bulk job.\<close>

definition bulk_input_set :: "pymatgen \<Rightarrow> adsorption_args \<Rightarrow> input_set" where
  "bulk_input_set lib a =
     (case vasp_input_set a of
        Some v \<Rightarrow> v
      | None \<Rightarrow> MVLSlabSet (normalized_structure lib a) True [])"

definition bulk_fw :: "pymatgen \<Rightarrow> adsorption_args \<Rightarrow> firework" where
  "bulk_fw lib a =
     OptimizeFW (normalized_structure lib a) (bulk_input_set lib a) (vasp_cmd a) (db_file a)"

definition state_after_bulk :: "pymatgen \<Rightarrow> adsorption_args \<Rightarrow> build_state" where
  "state_after_bulk lib a =
     (let no_ldau = \<not> truthy (dict_get (incar lib (bulk_input_set lib a)) ''LDAU'')
      in \<lparr>st_slab_incar_params =
             (if no_ldau then dict_update (slab_incar_params a) [(''LDAU'', VBool False)]
              else slab_incar_params a),
          st_ads_incar_params =
             (if no_ldau then dict_update (ads_incar_params a) [(''LDAU'', VBool False)]
              else ads_incar_params a),
          fws = [bulk_fw lib a]\<rparr>)"

definition get_wf_adsorption ::
  "pymatgen \<Rightarrow> adsorption_args \<Rightarrow> (error + workflow) \<times> build_state" where
  "get_wf_adsorption lib a =
     (let structure = normalized_structure lib a;
          s0 = state_after_bulk lib a
      in case max_index_of (map fst (adsorbate_config a)) of
           Inl e \<Rightarrow> (Inl e, s0)
         | Inr max_index \<Rightarrow>
             wf_from_slabs lib a structure s0
               (generate_decorated_slabs lib structure max_index (min_slab_size a)
                  (min_vacuum_size a) (max_normal_search a) (center_slab a)))"

text \<open>
  The two dictionaries that are the default values of \<^verbatim>\<open>slab_incar_params\<close> and
  \<^verbatim>\<open>ads_incar_params\<close>: Python creates them once, when the function is defined, and
  every call that omits the arguments works on these same two objects.
\<close>

record module_defaults =
  default_slab_incar_params :: py_dict
  default_ads_incar_params :: py_dict

definition initial_defaults :: module_defaults where
  "initial_defaults = \<lparr>default_slab_incar_params = [], default_ads_incar_params = []\<rparr>"

text \<open>A call that omits both arguments: it reads the two objects and leaves them updated.\<close>

definition get_wf_adsorption_default_incar ::
  "pymatgen \<Rightarrow> module_defaults \<Rightarrow> adsorption_args \<Rightarrow> (error + workflow) \<times> module_defaults" where
  "get_wf_adsorption_default_incar lib d a =
     (let r = get_wf_adsorption lib
                (a\<lparr>slab_incar_params := default_slab_incar_params d,
                   ads_incar_params := default_ads_incar_params d\<rparr>)
      in (fst r,
          \<lparr>default_slab_incar_params = st_slab_incar_params (snd r),
           default_ads_incar_params = st_ads_incar_params (snd r)\<rparr>))"

section \<open>The molecule reference workflow builder\<close>

text \<open>
  \<^verbatim>\<open>Structure(Lattice.cubic(a), species, coords, coords_are_cartesian=True)\<close>: each site
  gets the fractional position of its Cartesian one; with a singular lattice matrix the
  first site raises.
\<close>

definition cubic_site :: "pymatgen \<Rightarrow> real \<Rightarrow> string \<times> vec3 \<Rightarrow> error + site" where
  "cubic_site lib a sc =
     (case get_fractional_coords lib a (snd sc) of
        None \<Rightarrow> Inl LinAlgError
      | Some f \<Rightarrow> Inr \<lparr>species_string = fst sc, frac_coords = f, properties = []\<rparr>)"

definition Structure_cubic_cartesian ::
  "pymatgen \<Rightarrow> real \<Rightarrow> string list \<Rightarrow> vec3 list \<Rightarrow> error + Structure" where
  "Structure_cubic_cartesian lib a species coords =
     (case comprehension (cubic_site lib a) (zip species coords) of
        Inl e \<Rightarrow> Inl e
      | Inr ss \<Rightarrow> Inr \<lparr>lattice = Lattice_cubic a, sites = ss\<rparr>)"

text \<open>The mean of each column, in exact arithmetic; of no rows there is none.\<close>

definition average :: "vec3 list \<Rightarrow> vec3 option" where
  "average cs =
     (if cs = [] then None
      else Some (sum_list (map fst cs) / real (length cs),
                 sum_list (map (fst \<circ> snd) cs) / real (length cs),
                 sum_list (map (snd \<circ> snd) cs) / real (length cs)))"

text \<open>
  \<^verbatim>\<open>translate_sites(indices, vector)\<close> of pymatgen replaces each listed site by one at
  \<^verbatim>\<open>site.frac_coords + vector\<close>, a float addition per coordinate, which (\<^verbatim>\<open>to_unit_cell\<close>
  being true by default) is brought back into the unit cell.
\<close>

definition fadd3 :: "pymatgen \<Rightarrow> vec3 \<Rightarrow> vec3 \<Rightarrow> vec3" where
  "fadd3 lib f v =
     (case (f, v) of
        ((x, y, z), (dx, dy, dz)) \<Rightarrow> (fadd lib x dx, fadd lib y dy, fadd lib z dz))"

definition to_unit_cell3 :: "pymatgen \<Rightarrow> vec3 \<Rightarrow> vec3" where
  "to_unit_cell3 lib f =
     (case f of (x, y, z) \<Rightarrow> (to_unit_cell lib x, to_unit_cell lib y, to_unit_cell lib z))"

definition translate_site :: "pymatgen \<Rightarrow> vec3 \<Rightarrow> site \<Rightarrow> site" where
  "translate_site lib v st =
     st\<lparr>frac_coords := to_unit_cell3 lib (fadd3 lib (frac_coords st) v)\<rparr>"

definition translate_sites :: "pymatgen \<Rightarrow> nat list \<Rightarrow> vec3 \<Rightarrow> Structure \<Rightarrow> Structure" where
  "translate_sites lib indices v s =
     s\<lparr>sites := fold (\<lambda>i ss. ss[i := translate_site lib v (ss ! i)]) indices (sites s)\<rparr>"

text \<open>
  \<^verbatim>\<open>np.array([0.5]*3) - np.average(m_struct.frac_coords, axis=0)\<close>: the vector of line 232,
  three float subtractions.
\<close>

definition centring_vector :: "pymatgen \<Rightarrow> vec3 list \<Rightarrow> vec3" where
  "centring_vector lib fs =
     (case np_average lib fs of
        (cx, cy, cz) \<Rightarrow> (fsub lib (1 / 2) cx, fsub lib (1 / 2) cy, fsub lib (1 / 2) cz))"

text \<open>
  Lines 229-232: the molecule in its cubic cell, every site moved by the centring
  vector. Without atoms the list of indices is empty and no site is moved.
\<close>

definition m_struct_of :: "pymatgen \<Rightarrow> real \<Rightarrow> Molecule \<Rightarrow> error + Structure" where
  "m_struct_of lib min_vac molecule =
     (case Structure_cubic_cartesian lib min_vac (species_and_occu molecule)
             (cart_coords molecule) of
        Inl e \<Rightarrow> Inl e
      | Inr m \<Rightarrow>
          Inr (translate_sites lib [0..<length (sites m)]
                 (centring_vector lib (map frac_coords (sites m))) m))"

text \<open>
  \<^verbatim>\<open>MPRelaxSet(s, user_incar_settings=d)\<close> and \<^verbatim>\<open>DictSet(s, config)\<close>: an input set sorts
  its structure when it is built, which raises for a structure without sites.
\<close>

definition new_MPRelaxSet :: "Structure \<Rightarrow> py_dict \<Rightarrow> error + input_set" where
  "new_MPRelaxSet s d = (if sites s = [] then Inl NoSitesError else Inr (MPRelaxSet s d))"

definition new_DictSet :: "Structure \<Rightarrow> py_dict \<Rightarrow> error + input_set" where
  "new_DictSet s config = (if sites s = [] then Inl NoSitesError else Inr (DictSet s config))"

text \<open>
  Lines 229-240, the body of the loop: the job of one molecule and its input set (or
  \<^verbatim>\<open>None\<close>). The k-point section of the set's configuration is updated and a
  \<^verbatim>\<open>DictSet\<close> built from the result. (The update is done in place on the
  configuration of the set at hand; the returned workflow holds the new set.)
\<close>

definition molecule_fw ::
  "pymatgen \<Rightarrow> real \<Rightarrow> string \<Rightarrow> string option \<Rightarrow> Molecule \<times> input_set option \<Rightarrow>
   error + firework" where
  "molecule_fw lib min_vac cmd db mv =
     (case m_struct_of lib min_vac (fst mv) of
        Inl e \<Rightarrow> Inl e
      | Inr m_struct \<Rightarrow>
     (case (case snd mv of
              Some vis \<Rightarrow> Inr vis
            | None \<Rightarrow> new_MPRelaxSet m_struct
                       [(''ISMEAR'', VInt 0), (''IBRION'', VInt 5), (''ISIF'', VInt 2)]) of
        Inl e \<Rightarrow> Inl e
      | Inr v \<Rightarrow>
     (case map_of (config_dict lib v) ''KPOINTS'' of
        None \<Rightarrow> Inl (KeyError ''KPOINTS'')
      | Some (VDict k) \<Rightarrow>
          (case new_DictSet m_struct
                  (AList.update ''KPOINTS''
                     (VDict (dict_update k [(''reciprocal_density'', VInt 1)]))
                     (config_dict lib v)) of
             Inl e \<Rightarrow> Inl e
           | Inr v' \<Rightarrow> Inr (OptimizeFW m_struct v' cmd db))
      | Some _ \<Rightarrow> Inl (AttributeError ''update''))))"

text \<open>
  \<^verbatim>\<open>get_wf_molecules(molecules, vasp_input_sets, min_vacuum_size, vasp_cmd, db_file)\<close>:
  one job per pair of \<^verbatim>\<open>zip(molecules, vasp_input_sets)\<close>, appended in order; an empty
  or missing list of input sets stands for one \<^verbatim>\<open>None\<close> per molecule.
\<close>

definition get_wf_molecules ::
  "pymatgen \<Rightarrow> Molecule list \<Rightarrow> input_set option list option \<Rightarrow> real \<Rightarrow> string \<Rightarrow>
   string option \<Rightarrow> error + workflow" where
  "get_wf_molecules lib molecules vasp_input_sets min_vac cmd db =
     (let viss = (case vasp_input_sets of
                    None \<Rightarrow> map (\<lambda>m. None) molecules
                  | Some l \<Rightarrow> (if l = [] then map (\<lambda>m. None) molecules else l))
      in case comprehension (molecule_fw lib min_vac cmd db) (zip molecules viss) of
           Inl e \<Rightarrow> Inl e
         | Inr jobs \<Rightarrow> Inr (Workflow jobs ''Molecule calculations''))"

section \<open>An example: hydrogen on the (111) surface\<close>

text \<open>
  The inputs of the module's own \<^verbatim>\<open>__main__\<close> block: the molecule \<^verbatim>\<open>h2\<close> and the
  configuration \<^verbatim>\<open>{"111": [h2]}\<close>, with a library that cuts a (111) and a (100) slab and
  finds one adsorption structure per slab and molecule.
\<close>

definition h2 :: Molecule where
  "h2 = [(''H'', (35 / 100, 0, 0)), (''H'', (- 35 / 100, 0, 0))]"

definition ex_bulk :: Structure where
  "ex_bulk =
     \<lparr>lattice = Lattice_cubic 1,
      sites = [\<lparr>species_string = ''Pd'', frac_coords = (0, 0, 0), properties = []\<rparr>]\<rparr>"

definition ex_slab :: "int list \<Rightarrow> Slab" where
  "ex_slab mi =
     \<lparr>slab_structure =
        \<lparr>lattice = Lattice_cubic 1,
         sites = [\<lparr>species_string = ''Pd'', frac_coords = (0, 0, 1 / 2),
                   properties = [(''surface_properties'', VStr ''surface'')]\<rparr>]\<rparr>,
      miller_index = mi, shift = 0\<rparr>"

definition ex_candidate :: Structure where
  "ex_candidate =
     \<lparr>lattice = \<lparr>abc = (5 / 2, 7 / 4, 2), angles = (90, 90, 90)\<rparr>,
      sites = [\<lparr>species_string = ''H'', frac_coords = (1 / 4, 1 / 4, 3 / 4),
                properties = [(''surface_properties'', VStr ''adsorbate'')]\<rparr>,
               \<lparr>species_string = ''Pd'', frac_coords = (0, 0, 1 / 2),
                properties = [(''surface_properties'', VStr ''surface'')]\<rparr>]\<rparr>"

text \<open>
  The binary64 number nearest to a real, a tie going to the even significand, as
  IEEE 754 rounds the exact result of an operation: \<open>e\<close> is the exponent (at least that
  of the smallest normal number), \<open>2 powr (e - 52)\<close> the spacing of the floats at \<open>x\<close>;
  beyond the largest float the result is infinite.
\<close>

definition binary64 :: "real \<Rightarrow> real option" where
  "binary64 x =
     (if x = 0 then Some 0
      else (let e = max \<lfloor>log 2 \<bar>x\<bar>\<rfloor> (- 1022);
                ulp = 2 powr (of_int e - 52);
                r = of_int (py_round (x / ulp)) * ulp
            in if 2 powr 1024 \<le> \<bar>r\<bar> then None else Some r))"

text \<open>
  The example library divides as IEEE 754 does. Its other float operations are the
  exact ones: on the inputs of the centring examples below every exact result is a
  binary64 number, so that the float operation returns that very number.
\<close>

definition ex_fdiv :: "real \<Rightarrow> real \<Rightarrow> real option" where
  "ex_fdiv x y = (if y = 0 then None else binary64 (x / y))"

definition ex_average :: "vec3 list \<Rightarrow> vec3" where
  "ex_average cs = (case average cs of None \<Rightarrow> (0, 0, 0) | Some c \<Rightarrow> c)"

definition ex_fractional_coords :: "real \<Rightarrow> vec3 \<Rightarrow> vec3 option" where
  "ex_fractional_coords a c =
     (case c of (x, y, z) \<Rightarrow> if a = 0 then None else Some (x / a, y / a, z / a))"

definition ex_lib :: pymatgen where
  "ex_lib =
     \<lparr>get_conventional_standard_structure = (\<lambda>s. s),
      incar = (\<lambda>v. []),
      config_dict = (\<lambda>v. [(''KPOINTS'', VDict [(''reciprocal_density'', VInt 64)])]),
      generate_decorated_slabs = (\<lambda>s mi mss mvs mns c. [ex_slab [1, 1, 1], ex_slab [1, 0, 0]]),
      generate_adsorption_structures = (\<lambda>sl m. [ex_candidate]),
      get_sorted_structure = (\<lambda>s. s),
      reduced_formula = (\<lambda>s. ''Pd''),
      molecule_reduced_formula = (\<lambda>m. ''H2''),
      fdiv = ex_fdiv,
      fsub = (\<lambda>x y. x - y),
      fadd = (\<lambda>x y. x + y),
      np_average = ex_average,
      get_fractional_coords = ex_fractional_coords,
      to_unit_cell = (\<lambda>x. x - of_int \<lfloor>x\<rfloor>)\<rparr>"

definition ex_args :: "(string \<times> Molecule list) list \<Rightarrow> adsorption_args" where
  "ex_args cfg =
     \<lparr>arg_structure = ex_bulk, adsorbate_config = cfg, vasp_input_set = None,
      min_slab_size = 7, min_vacuum_size = 12, center_slab = True, max_normal_search = 1,
      vasp_cmd = ''vasp'', db_file = None, conventional = True, slab_incar_params = [],
      ads_incar_params = [], auto_dipole = True\<rparr>"

section \<open>Reading a workflow\<close>

text \<open>
  The molecules requested on a slab: \<^verbatim>\<open>adsorbate_config[mi_string]\<close> when the slab's
  Miller-index string is a key, none otherwise.
\<close>

definition requested_molecules :: "adsorption_args \<Rightarrow> Slab \<Rightarrow> Molecule list" where
  "requested_molecules a slab =
     (case map_of (adsorbate_config a) (mi_string_of slab) of
        None \<Rightarrow> []
      | Some molecules \<Rightarrow> molecules)"

text \<open>The sites of a structure that the site finder has tagged as adsorbate.\<close>

definition tagged_adsorbate :: "site \<Rightarrow> bool" where
  "tagged_adsorbate st =
     (map_of (properties st) ''surface_properties'' = Some (VStr ''adsorbate''))"


text \<open>
  The jobs the loop bodies append. A slab job (lines 158-166) is parented to the job at
  position 0 and carries the one slab cut; an adsorbate job (lines 193-201) is parented
  to the same job and carries the four transformations with the parameters computed
  from the slab and the sorted candidate structure.
\<close>

definition slab_job_form :: "adsorption_args \<Rightarrow> Slab \<Rightarrow> firework \<Rightarrow> bool" where
  "slab_job_form a slab fw =
     (parents fw = [0] \<and> transformations fw = [''SlabTransformation'']
      \<and> transformation_params fw = [SlabParams (slab_trans_params_of a slab)])"

definition ads_job_form ::
  "pymatgen \<Rightarrow> adsorption_args \<Rightarrow> Slab \<Rightarrow> Structure \<Rightarrow> firework \<Rightarrow> bool" where
  "ads_job_form lib a slab cand fw =
     (\<exists>qa qb.
        fdiv lib (lattice_a (lattice (get_sorted_structure lib cand)))
                 (lattice_a (lattice (slab_structure slab))) = Some qa
      \<and> fdiv lib (lattice_b (lattice (get_sorted_structure lib cand)))
                 (lattice_b (lattice (slab_structure slab))) = Some qb
      \<and> parents fw = [0] \<and> transformations fw = trans_ads
      \<and> transformation_params fw =
          [SlabParams (slab_trans_params_of a slab),
           SupercellParams [[py_round qa, 0, 0], [0, py_round qb, 0], [0, 0, 1]],
           InsertSitesParams
             (map species_string (filter tagged_adsorbate (sites (get_sorted_structure lib cand))))
             (map frac_coords (filter tagged_adsorbate (sites (get_sorted_structure lib cand)))),
           SitePropertiesParams
             (map (\<lambda>st. AList.update ''velocities'' (VList [VFloat 0, VFloat 0, VFloat 0])
                          (properties st))
                (sites (get_sorted_structure lib cand)))])"


text \<open>
  The workflow the example yields: the bulk job, the job of the (111) slab and the job
  of the one adsorption structure.
\<close>

definition ex_incar :: py_dict where
  "ex_incar =
     [(''LDAU'', VBool False), (''LDIPOL'', VStr ''True''), (''IDIPOL'', VInt 3),
      (''DIPOL'', VList [VInt 0, VInt 0, VFloat (1 / 2)])]"

definition ex_slab_params :: slab_trans_params where
  "ex_slab_params =
     \<lparr>tp_miller_index = [1, 1, 1], tp_min_slab_size = 7, tp_min_vacuum_size = 12,
      tp_shift = 0, tp_center_slab = True, tp_max_normal_search = 1\<rparr>"

definition ex_ads_fw :: firework where
  "ex_ads_fw =
     TransmuterFW ''H2-Pd_111 adsorbate optimization'' ex_bulk
       [''SlabTransformation'', ''SupercellTransformation'', ''InsertSitesTransformation'',
        ''AddSitePropertyTransformation'']
       [SlabParams ex_slab_params,
        SupercellParams [[2, 0, 0], [0, 2, 0], [0, 0, 1]],
        InsertSitesParams [''H''] [(1 / 4, 1 / 4, 3 / 4)],
        SitePropertiesParams
          [[(''surface_properties'', VStr ''adsorbate''),
            (''velocities'', VList [VFloat 0, VFloat 0, VFloat 0])],
           [(''surface_properties'', VStr ''surface''),
            (''velocities'', VList [VFloat 0, VFloat 0, VFloat 0])]]]
       True None ''vasp'' [0] (MVLSlabSet ex_bulk False ex_incar)"

definition ex_slab_fw :: firework where
  "ex_slab_fw =
     TransmuterFW ''Pd_111 slab optimization'' ex_bulk [''SlabTransformation'']
       [SlabParams ex_slab_params] True None ''vasp'' [0]
       (MVLSlabSet (slab_structure (ex_slab [1, 1, 1])) False ex_incar)"

definition ex_bulk_fw :: firework where
  "ex_bulk_fw = OptimizeFW ex_bulk (MVLSlabSet ex_bulk True []) ''vasp'' None"

definition ex_wf :: workflow where
  "ex_wf = Workflow [ex_bulk_fw, ex_slab_fw, ex_ads_fw] ''Pd:Adsorbate calculations''"

text \<open>The jobs of a result: those of the workflow, none when the call raised.\<close>

definition returned_jobs :: "error + workflow \<Rightarrow> firework list" where
  "returned_jobs r = (case r of Inl e \<Rightarrow> [] | Inr w \<Rightarrow> wf_fws w)"

text \<open>
  The example without the automatic dipole correction, the example with
  \<^verbatim>\<open>center_slab=False\<close>, and molecules for the reference workflow, in a cell of edge
  16: a dimer, with the structure and the job it yields, and a molecule 12 long.
\<close>

definition ex_no_dipole_args :: adsorption_args where
  "ex_no_dipole_args = (ex_args [(''111'', [h2])])\<lparr>auto_dipole := False\<rparr>"

definition ex_uncentred_args :: adsorption_args where
  "ex_uncentred_args = (ex_args [(''111'', [h2])])\<lparr>center_slab := False\<rparr>"


definition ex_dimer :: Molecule where
  "ex_dimer = [(''H'', (3 / 8, 0, 0)), (''H'', (- 3 / 8, 0, 0))]"

definition ex_dimer_struct :: Structure where
  "ex_dimer_struct =
     \<lparr>lattice = Lattice_cubic 16,
      sites = [\<lparr>species_string = ''H'', frac_coords = (67 / 128, 1 / 2, 1 / 2), properties = []\<rparr>,
               \<lparr>species_string = ''H'', frac_coords = (61 / 128, 1 / 2, 1 / 2), properties = []\<rparr>]\<rparr>"

definition ex_dimer_fw :: firework where
  "ex_dimer_fw =
     OptimizeFW ex_dimer_struct
       (DictSet ex_dimer_struct [(''KPOINTS'', VDict [(''reciprocal_density'', VInt 1)])])
       ''vasp'' None"


definition ex_molecules_wf :: workflow where
  "ex_molecules_wf = Workflow [ex_dimer_fw, ex_dimer_fw] ''Molecule calculations''"








section \<open>The maximum Miller index\<close>

lemma comprehension_py_int:
  "list_all is_digit cs \<Longrightarrow> comprehension py_int cs = Inr (map digit_value cs)"
  by (induction cs) (simp_all add: py_int_def)

lemma py_max_Max: "ds \<noteq> [] \<Longrightarrow> py_max ds = Inr (Max (set ds))"
  by (cases ds) (simp_all add: Max.set_eq_fold [symmetric])

lemma max_index_of_digits:
  assumes "list_all is_digit (concat keys)" and "concat keys \<noteq> []"
  shows "max_index_of keys = Inr (Max (digit_value ` set (concat keys)))"
  using assms by (simp add: max_index_of_def comprehension_py_int py_max_Max)

lemma max_index_of_empty: "max_index_of [] = Inl MaxEmptySequence"
  by (simp add: max_index_of_def)

text \<open>
  C5, as the code has it. When the configuration has at least one key and every key is
  a non-empty string of decimal digits, \<open>max_index\<close> is the largest digit occurring in
  the concatenation of the keys, and the slabs the function goes on with are the ones the library enumerates
  for the normalized structure with exactly that value as maximum Miller index (and the
  caller's sizes, normal-search limit and centering flag).
\<close>

theorem max_index_is_largest_digit:
  assumes "adsorbate_config a \<noteq> []"
    and "\<forall>key \<in> set (map fst (adsorbate_config a)). key \<noteq> [] \<and> list_all is_digit key"
  shows "max_index_of (map fst (adsorbate_config a))
           = Inr (Max (digit_value ` set (concat (map fst (adsorbate_config a)))))
         \<and> get_wf_adsorption lib a
           = wf_from_slabs lib a (normalized_structure lib a) (state_after_bulk lib a)
               (generate_decorated_slabs lib (normalized_structure lib a)
                  (Max (digit_value ` set (concat (map fst (adsorbate_config a)))))
                  (min_slab_size a) (min_vacuum_size a) (max_normal_search a) (center_slab a))"
proof -
  let ?keys = "map fst (adsorbate_config a)"
  have d: "list_all is_digit (concat ?keys)"
    using assms(2) by (auto simp: list_all_iff)
  obtain k ks where "?keys = k # ks" using assms(1) by (cases "adsorbate_config a") auto
  moreover then have "k \<noteq> []" using assms(2) by (metis list.set_intros(1))
  ultimately have ne: "concat ?keys \<noteq> []" by simp
  have m: "max_index_of ?keys = Inr (Max (digit_value ` set (concat ?keys)))"
    using d ne by (rule max_index_of_digits)
  show ?thesis using m by (simp add: get_wf_adsorption_def Let_def)
qed

theorem max_index_is_largest_digit_witness:
  "max_index_of (map fst (adsorbate_config (ex_args [(''111'', [h2]), (''210'', [])]))) = Inr 2"
  using max_index_is_largest_digit [of "ex_args [(''111'', [h2]), (''210'', [])]" ex_lib]
  by (simp add: ex_args_def is_digit_def digit_value_def)

text \<open>
  Without keys there is no digit and no maximum: stated for every configuration whose
  keys are digit strings, the property fails for the empty configuration, where
  \<^verbatim>\<open>max\<close> raises and no slab is enumerated.
\<close>

theorem empty_config_has_no_max_index:
  "adsorbate_config (ex_args []) = []
   \<and> max_index_of (map fst (adsorbate_config (ex_args []))) = Inl MaxEmptySequence
   \<and> fst (get_wf_adsorption ex_lib (ex_args [])) = Inl MaxEmptySequence"
  by (simp add: ex_args_def max_index_of_empty get_wf_adsorption_def)

text \<open>
  C10. With an empty configuration the function raises the error of \<^verbatim>\<open>max\<close> on an empty
  sequence; whenever it returns a workflow, the configuration has at least one key.
\<close>

theorem empty_config_raises:
  "(adsorbate_config a = [] \<longrightarrow> fst (get_wf_adsorption lib a) = Inl MaxEmptySequence)
   \<and> (\<forall>w. fst (get_wf_adsorption lib a) = Inr w \<longrightarrow> adsorbate_config a \<noteq> [])"
  by (auto simp: get_wf_adsorption_def max_index_of_empty)

theorem empty_config_raises_witness:
  "fst (get_wf_adsorption ex_lib (ex_args [])) = Inl MaxEmptySequence"
  using empty_config_raises [of "ex_args []" ex_lib] by (simp add: ex_args_def)

section \<open>A Miller index that no slab has\<close>

lemma ex_max_222: "max_index_of [''222''] = Inr 2"
  by (simp add: max_index_of_def py_int_def is_digit_def digit_value_def)

lemma mi_string_111: "mi_string_of (ex_slab [1, 1, 1]) = ''111''"
  by (simp add: mi_string_of_def ex_slab_def str_int_def str_nat.simps)

lemma mi_string_100: "mi_string_of (ex_slab [1, 0, 0]) = ''100''"
  by (simp add: mi_string_of_def ex_slab_def str_int_def str_nat.simps)

text \<open>
  C1, as the code has it. When the slabs have been enumerated and some key of the
  configuration is the Miller-index string of none of them, the function raises
  \<^verbatim>\<open>ValueError\<close> and returns no workflow; the message is the fixed text followed by the
  list of exactly the Miller-index strings of the enumerated slabs; and at that moment
  the bulk relaxation job, and no other job, has been constructed.
\<close>

theorem unknown_miller_index_raises:
  assumes "max_index_of (map fst (adsorbate_config a)) = Inr mi"
    and "slabs = generate_decorated_slabs lib (normalized_structure lib a) mi (min_slab_size a)
                   (min_vacuum_size a) (max_normal_search a) (center_slab a)"
    and "key \<in> set (map fst (adsorbate_config a))"
    and "key \<notin> set (map mi_string_of slabs)"
  shows "fst (get_wf_adsorption lib a)
           = Inl (ValueError (''Miller index not in generated slab list. Unique slabs are ''
                              @ py_repr_str_list (map mi_string_of slabs)))
         \<and> fws (snd (get_wf_adsorption lib a)) = [bulk_fw lib a]"
proof -
  have "list_ex (\<lambda>k. k \<notin> set (map mi_string_of slabs)) (map fst (adsorbate_config a))"
    using assms(3,4) unfolding list_ex_iff by blast
  then have "get_wf_adsorption lib a
      = (Inl (miller_index_error (map mi_string_of slabs)), state_after_bulk lib a)"
    using assms(1,2) by (simp add: get_wf_adsorption_def wf_from_slabs_def Let_def)
  then show ?thesis
    by (simp add: miller_index_error_def state_after_bulk_def Let_def)
qed

theorem unknown_miller_index_raises_witness:
  "fst (get_wf_adsorption ex_lib (ex_args [(''222'', [h2])]))
     = Inl (ValueError (''Miller index not in generated slab list. Unique slabs are ''
                        @ ''['' @ [CHR 0x27] @ ''111'' @ [CHR 0x27] @ '', ''
                        @ [CHR 0x27] @ ''100'' @ [CHR 0x27] @ '']''))
   \<and> fws (snd (get_wf_adsorption ex_lib (ex_args [(''222'', [h2])])))
     = [bulk_fw ex_lib (ex_args [(''222'', [h2])])]"
  using unknown_miller_index_raises
    [of "ex_args [(''222'', [h2])]" 2 "[ex_slab [1, 1, 1], ex_slab [1, 0, 0]]" ex_lib "''222''"]
  by (simp add: ex_args_def ex_lib_def ex_max_222 mi_string_111 mi_string_100
      py_repr_str_list_def py_repr_str_def)

text \<open>
  Stated with no job created before the error, the property fails: the request for
  \<^verbatim>\<open>"222"\<close> against slabs \<^verbatim>\<open>"111"\<close> and \<^verbatim>\<open>"100"\<close> raises the error, but the list of
  constructed jobs is not empty.
\<close>

theorem job_created_before_miller_index_error:
  "fst (get_wf_adsorption ex_lib (ex_args [(''222'', [h2])]))
     = Inl (miller_index_error [''111'', ''100''])
   \<and> fws (snd (get_wf_adsorption ex_lib (ex_args [(''222'', [h2])]))) \<noteq> []"
  by (simp add: get_wf_adsorption_def wf_from_slabs_def ex_args_def ex_lib_def ex_max_222
      mi_string_111 mi_string_100 state_after_bulk_def Let_def)

section \<open>What the loops append\<close>

lemma for_each_appends:
  assumes "\<And>x s. x \<in> set xs \<Longrightarrow> \<exists>new. fws (snd (body x s)) = fws s @ new \<and> list_all Q new"
  shows "\<exists>new. fws (snd (for_each body xs s)) = fws s @ new \<and> list_all Q new"
  using assms
proof (induction xs arbitrary: s)
  case Nil
  then show ?case by simp
next
  case (Cons x xs)
  obtain r s1 where b: "body x s = (r, s1)" by (cases "body x s")
  from Cons.prems [of x s] b obtain n1 where n1: "fws s1 = fws s @ n1" "list_all Q n1"
    by auto
  show ?case
  proof (cases r)
    case (Some e)
    with b n1 show ?thesis by simp
  next
    case None
    from Cons.IH [of s1] Cons.prems obtain n2
      where n2: "fws (snd (for_each body xs s1)) = fws s1 @ n2" "list_all Q n2"
      by auto
    with b None n1 show ?thesis by simp
  qed
qed


lemma ads_sites_of_filter:
  "ads_sites_of ss = Inr r \<Longrightarrow> r = filter tagged_adsorbate ss"
  by (induction ss arbitrary: r)
     (auto simp: tagged_adsorbate_def split: option.splits sum.splits if_splits)

lemma map2_replicate: "map2 f xs (replicate (length xs) v) = map (\<lambda>x. f x v) xs"
  by (induction xs) simp_all

lemma sites_add_site_property:
  "sites (add_site_property name (replicate (length (sites s)) v) s)
     = map (\<lambda>st. st\<lparr>properties := AList.update name v (properties st)\<rparr>) (sites s)"
  by (simp add: add_site_property_def map2_replicate)

lemma lattice_add_site_property: "lattice (add_site_property name vals s) = lattice s"
  by (simp add: add_site_property_def)

lemma filter_tagged_velocities:
  "filter tagged_adsorbate
      (map (\<lambda>st. st\<lparr>properties := AList.update ''velocities'' v (properties st)\<rparr>) ss)
   = map (\<lambda>st. st\<lparr>properties := AList.update ''velocities'' v (properties st)\<rparr>)
       (filter tagged_adsorbate ss)"
  by (induction ss) (simp_all add: tagged_adsorbate_def update_conv')


lemma struct_body_appends:
  "\<exists>new. fws (snd (struct_body lib a structure slab mi molecule cand s)) = fws s @ new
         \<and> list_all (ads_job_form lib a slab cand) new"
proof -
  let ?sorted = "get_sorted_structure lib cand"
  let ?v = "VList [VFloat 0, VFloat 0, VFloat 0]"
  let ?struct = "add_site_property ''velocities'' (replicate (length (sites ?sorted)) ?v) ?sorted"
  have sites: "sites ?struct
      = map (\<lambda>st. st\<lparr>properties := AList.update ''velocities'' ?v (properties st)\<rparr>) (sites ?sorted)"
    by (rule sites_add_site_property)
  have ads: "ads_sites_of (map (\<lambda>st. st\<lparr>properties := AList.update ''velocities'' ?v (properties st)\<rparr>)
                              (sites ?sorted)) = Inr r \<Longrightarrow>
      map species_string r = map species_string (filter tagged_adsorbate (sites ?sorted))
      \<and> map frac_coords r = map frac_coords (filter tagged_adsorbate (sites ?sorted))" for r
    by (drule ads_sites_of_filter) (simp add: filter_tagged_velocities comp_def)
  show ?thesis
    unfolding struct_body_def Let_def
    by (auto simp: round_ratio_def lattice_add_site_property ads_job_form_def TransmuterFW_def
        from_scaling_factors_def sites comp_def dest: ads
        split: sum.splits option.splits)
qed


lemma molecule_body_appends:
  "\<exists>new. fws (snd (molecule_body lib a structure slab mi molecule s)) = fws s @ new
         \<and> list_all (\<lambda>fw. \<exists>cand \<in> set (generate_adsorption_structures lib slab molecule).
                              ads_job_form lib a slab cand fw) new"
  unfolding molecule_body_def
proof (rule for_each_appends)
  fix cand s
  assume c: "cand \<in> set (generate_adsorption_structures lib slab molecule)"
  obtain new where n: "fws (snd (struct_body lib a structure slab mi molecule cand s)) = fws s @ new"
      "list_all (ads_job_form lib a slab cand) new"
    using struct_body_appends by blast
  have "list_all (\<lambda>fw. \<exists>cand \<in> set (generate_adsorption_structures lib slab molecule).
                              ads_job_form lib a slab cand fw) new"
    using n(2) c by (auto simp: list_all_iff)
  with n(1) show "\<exists>new. fws (snd (struct_body lib a structure slab mi molecule cand s)) = fws s @ new
         \<and> list_all (\<lambda>fw. \<exists>cand \<in> set (generate_adsorption_structures lib slab molecule).
                              ads_job_form lib a slab cand fw) new"
    by blast
qed


lemma slab_body_appends:
  "\<exists>new. fws (snd (slab_body lib a structure slab s)) = fws s @ new
         \<and> list_all (\<lambda>fw. mi_string_of slab \<in> set (map fst (adsorbate_config a))
                          \<and> (slab_job_form a slab fw
                             \<or> (\<exists>molecule \<in> set (requested_molecules a slab).
                                 \<exists>cand \<in> set (generate_adsorption_structures lib slab molecule).
                                   ads_job_form lib a slab cand fw))) new"
  (is "\<exists>new. _ = _ @ new \<and> list_all ?Q new")
proof (cases "map_of (adsorbate_config a) (mi_string_of slab)")
  case None
  then show ?thesis by (simp add: slab_body_def)
next
  case (Some molecules)
  have key: "mi_string_of slab \<in> set (map fst (adsorbate_config a))"
    using Some by (force dest: map_of_SomeD)
  have req: "requested_molecules a slab = molecules"
    using Some by (simp add: requested_molecules_def)
  define s1 where "s1 = (if auto_dipole a
                        then s\<lparr>st_slab_incar_params :=
                                 dict_update (st_slab_incar_params s) dipole_dict,
                               st_ads_incar_params :=
                                 dict_update (st_ads_incar_params s) dipole_dict\<rparr>
                        else s)"
  define job where "job = TransmuterFW
      (reduced_formula lib (slab_structure slab) @ ''_'' @ mi_string_of slab @ '' slab optimization'')
      structure [''SlabTransformation'']
      [SlabParams (slab_trans_params_of a slab)] True (db_file a) (vasp_cmd a) [0]
      (MVLSlabSet (slab_structure slab) False (st_slab_incar_params s1))"
  define s2 where "s2 = s1\<lparr>fws := fws s1 @ [job]\<rparr>"
  have body: "slab_body lib a structure slab s
      = for_each (molecule_body lib a structure slab (mi_string_of slab)) molecules s2"
    using Some by (simp add: slab_body_def Let_def s1_def s2_def job_def)
  have f2: "fws s2 = fws s @ [job]" by (simp add: s2_def s1_def)
  have j: "?Q job"
    using key by (simp add: slab_job_form_def job_def TransmuterFW_def)
  have "\<exists>new. fws (snd (for_each (molecule_body lib a structure slab (mi_string_of slab))
                         molecules s2)) = fws s2 @ new \<and> list_all ?Q new"
  proof (rule for_each_appends)
    fix molecule s
    assume m: "molecule \<in> set molecules"
    obtain new where n:
      "fws (snd (molecule_body lib a structure slab (mi_string_of slab) molecule s)) = fws s @ new"
      "list_all (\<lambda>fw. \<exists>cand \<in> set (generate_adsorption_structures lib slab molecule).
                              ads_job_form lib a slab cand fw) new"
      using molecule_body_appends by blast
    have "list_all ?Q new"
      using n(2) m key req by (auto simp: list_all_iff)
    with n(1) show "\<exists>new. fws (snd (molecule_body lib a structure slab (mi_string_of slab) molecule s))
                      = fws s @ new \<and> list_all ?Q new"
      by blast
  qed
  then obtain new where n: "fws (snd (slab_body lib a structure slab s)) = fws s2 @ new"
      "list_all ?Q new"
    using body by auto
  have "fws (snd (slab_body lib a structure slab s)) = fws s @ (job # new)"
    using n(1) f2 by simp
  moreover have "list_all ?Q (job # new)" using j n(2) by simp
  ultimately show ?thesis by blast
qed


section \<open>The example run\<close>

lemma ex_max_111: "max_index_of [''111''] = Inr 1"
  by (simp add: max_index_of_def py_int_def is_digit_def digit_value_def)

lemma binary64_normal:
  assumes "2 powr (of_int e) \<le> \<bar>x\<bar>" and "\<bar>x\<bar> < 2 powr (of_int e + 1)" and "- 1022 \<le> e"
    and "r = of_int (py_round (x / 2 powr (of_int e - 52))) * 2 powr (of_int e - 52)"
    and "\<bar>r\<bar> < 2 powr 1024"
  shows "binary64 x = Some r"
proof -
  have pos: "0 < \<bar>x\<bar>" using assms(1) by (smt (verit) powr_gt_zero)
  have "\<lfloor>log 2 \<bar>x\<bar>\<rfloor> = e"
    using assms(1,2) pos by (simp add: floor_log_eq_powr_iff)
  then show ?thesis using assms(3,4,5) pos by (simp add: binary64_def Let_def)
qed

lemma ex_fdiv_a: "ex_fdiv (5 / 2) 1 = Some (5 / 2)"
  unfolding ex_fdiv_def
  by simp (rule binary64_normal [where e = 1], simp_all add: py_round_def powr_minus_divide)

lemma ex_fdiv_b: "ex_fdiv (7 / 4) 1 = Some (7 / 4)"
  unfolding ex_fdiv_def
  by simp (rule binary64_normal [where e = 0], simp_all add: py_round_def powr_minus_divide)

lemma py_round_a: "py_round (5 / 2) = 2"
  by (simp add: py_round_def)

lemma py_round_b: "py_round (7 / 4) = 2"
  by (simp add: py_round_def)

lemma ex_slab_sel:
  "miller_index (ex_slab mi) = mi" "shift (ex_slab mi) = 0"
  "lattice (slab_structure (ex_slab mi)) = Lattice_cubic 1"
  by (simp_all add: ex_slab_def)

lemma ex_run: "fst (get_wf_adsorption ex_lib (ex_args [(''111'', [h2])])) = Inr ex_wf"
  by (simp add: get_wf_adsorption_def wf_from_slabs_def normalized_structure_def
      state_after_bulk_def bulk_fw_def bulk_input_set_def slab_body_def molecule_body_def
      struct_body_def Let_def ex_max_111 mi_string_111 mi_string_100
      ex_args_def ex_lib_def dict_get_def dict_update_def dipole_dict_def
      ex_slab_sel ex_candidate_def add_site_property_def lattice_a_def lattice_b_def
      Lattice_cubic_def round_ratio_def ex_fdiv_a ex_fdiv_b py_round_a py_round_b
      from_scaling_factors_def slab_trans_params_of_def trans_ads_def
      ex_wf_def ex_bulk_fw_def ex_slab_fw_def ex_ads_fw_def ex_slab_params_def ex_incar_def
      Workflow_def)


section \<open>The jobs of a returned workflow\<close>

lemma get_wf_adsorption_Inr:
  assumes "fst (get_wf_adsorption lib a) = Inr w"
    and "max_index_of (map fst (adsorbate_config a)) = Inr mi"
    and "slabs = generate_decorated_slabs lib (normalized_structure lib a) mi (min_slab_size a)
                   (min_vacuum_size a) (max_normal_search a) (center_slab a)"
  shows "\<exists>s'. for_each (slab_body lib a (normalized_structure lib a)) slabs
                 (state_after_bulk lib a) = (None, s') \<and> wf_fws w = fws s'"
  using assms
  by (auto simp: get_wf_adsorption_def wf_from_slabs_def Let_def Workflow_def
      split: if_splits prod.splits option.splits)

lemma get_wf_adsorption_max_index:
  assumes "fst (get_wf_adsorption lib a) = Inr w"
  shows "\<exists>mi. max_index_of (map fst (adsorbate_config a)) = Inr mi"
  using assms by (auto simp: get_wf_adsorption_def Let_def split: sum.splits)

lemma fws_state_after_bulk: "fws (state_after_bulk lib a) = [bulk_fw lib a]"
  by (simp add: state_after_bulk_def Let_def)

lemma workflow_jobs:
  assumes "fst (get_wf_adsorption lib a) = Inr w"
    and "max_index_of (map fst (adsorbate_config a)) = Inr mi"
    and "slabs = generate_decorated_slabs lib (normalized_structure lib a) mi (min_slab_size a)
                   (min_vacuum_size a) (max_normal_search a) (center_slab a)"
  shows "\<exists>rest. wf_fws w = bulk_fw lib a # rest
           \<and> list_all (\<lambda>fw. \<exists>slab \<in> set slabs.
                 mi_string_of slab \<in> set (map fst (adsorbate_config a))
                 \<and> (slab_job_form a slab fw
                    \<or> (\<exists>molecule \<in> set (requested_molecules a slab).
                         \<exists>cand \<in> set (generate_adsorption_structures lib slab molecule).
                           ads_job_form lib a slab cand fw))) rest"
  (is "\<exists>rest. _ \<and> list_all ?Q rest")
proof -
  obtain s' where run: "for_each (slab_body lib a (normalized_structure lib a)) slabs
      (state_after_bulk lib a) = (None, s')" and jobs: "wf_fws w = fws s'"
    using get_wf_adsorption_Inr [OF assms] by blast
  have "\<exists>new. fws (snd (for_each (slab_body lib a (normalized_structure lib a)) slabs
                          (state_after_bulk lib a)))
               = fws (state_after_bulk lib a) @ new \<and> list_all ?Q new"
  proof (rule for_each_appends)
    fix slab s
    assume m: "slab \<in> set slabs"
    obtain new where n:
      "fws (snd (slab_body lib a (normalized_structure lib a) slab s)) = fws s @ new"
      "list_all (\<lambda>fw. mi_string_of slab \<in> set (map fst (adsorbate_config a))
                          \<and> (slab_job_form a slab fw
                             \<or> (\<exists>molecule \<in> set (requested_molecules a slab).
                                 \<exists>cand \<in> set (generate_adsorption_structures lib slab molecule).
                                   ads_job_form lib a slab cand fw))) new"
      using slab_body_appends by blast
    have "list_all ?Q new"
      unfolding list_all_iff
    proof
      fix fw assume "fw \<in> set new"
      with n(2) have "mi_string_of slab \<in> set (map fst (adsorbate_config a))
                          \<and> (slab_job_form a slab fw
                             \<or> (\<exists>molecule \<in> set (requested_molecules a slab).
                                 \<exists>cand \<in> set (generate_adsorption_structures lib slab molecule).
                                   ads_job_form lib a slab cand fw))"
        by (simp add: list_all_iff)
      with m show "?Q fw" by blast
    qed
    with n(1) show "\<exists>new. fws (snd (slab_body lib a (normalized_structure lib a) slab s))
                       = fws s @ new \<and> list_all ?Q new"
      by blast
  qed
  then show ?thesis using run jobs by (simp add: fws_state_after_bulk)
qed

text \<open>
  C2. Whenever the function returns a workflow, its first job is the bulk relaxation
  job, which has no parents; every other job has exactly one parent reference, to the
  job at position 0, the bulk job; and the bulk job is the only job without parents.
\<close>

theorem bulk_job_is_the_only_root:
  assumes "fst (get_wf_adsorption lib a) = Inr w"
  shows "\<exists>rest. wf_fws w = bulk_fw lib a # rest
           \<and> parents (bulk_fw lib a) = []
           \<and> (\<forall>fw \<in> set rest. parents fw = [0])
           \<and> filter (\<lambda>fw. parents fw = []) (wf_fws w) = [bulk_fw lib a]"
proof -
  obtain mi where mi: "max_index_of (map fst (adsorbate_config a)) = Inr mi"
    using get_wf_adsorption_max_index [OF assms] by blast
  obtain rest where rest: "wf_fws w = bulk_fw lib a # rest"
    and forms: "list_all (\<lambda>fw. \<exists>slab \<in> set (generate_decorated_slabs lib (normalized_structure lib a) mi
                   (min_slab_size a) (min_vacuum_size a) (max_normal_search a) (center_slab a)).
                 mi_string_of slab \<in> set (map fst (adsorbate_config a))
                 \<and> (slab_job_form a slab fw
                    \<or> (\<exists>molecule \<in> set (requested_molecules a slab).
                         \<exists>cand \<in> set (generate_adsorption_structures lib slab molecule).
                           ads_job_form lib a slab cand fw))) rest"
    using workflow_jobs [OF assms mi refl] by blast
  have p: "\<forall>fw \<in> set rest. parents fw = [0]"
    using forms by (auto simp: list_all_iff slab_job_form_def ads_job_form_def)
  have b: "parents (bulk_fw lib a) = []"
    by (simp add: bulk_fw_def OptimizeFW_def)
  have "filter (\<lambda>fw. parents fw = []) rest = []"
    using p by (simp add: filter_empty_conv)
  with rest p b show ?thesis by simp
qed

theorem bulk_job_is_the_only_root_witness:
  "fst (get_wf_adsorption ex_lib (ex_args [(''111'', [h2])])) = Inr ex_wf
   \<and> map parents (wf_fws ex_wf) = [[], [0], [0]]
   \<and> filter (\<lambda>fw. parents fw = []) (wf_fws ex_wf) = [bulk_fw ex_lib (ex_args [(''111'', [h2])])]"
  using bulk_job_is_the_only_root [OF ex_run] ex_run
  by (auto simp: ex_wf_def Workflow_def ex_bulk_fw_def ex_slab_fw_def ex_ads_fw_def
      OptimizeFW_def TransmuterFW_def)















section \<open>The molecule reference workflow\<close>

lemma comprehension_nth:
  "comprehension f xs = Inr ys \<Longrightarrow>
   length ys = length xs \<and> (\<forall>i < length xs. f (xs ! i) = Inr (ys ! i))"
proof (induction xs arbitrary: ys)
  case Nil
  then show ?case by simp
next
  case (Cons x xs)
  then obtain y ys' where y: "f x = Inr y" and r: "comprehension f xs = Inr ys'"
    and ys: "ys = y # ys'"
    by (auto split: sum.splits)
  from Cons.IH [OF r] have "length ys' = length xs"
    and "\<forall>i < length xs. f (xs ! i) = Inr (ys' ! i)" by simp_all
  with y ys show ?case by (auto simp: nth_Cons split: nat.splits)
qed

lemma molecule_fw_Inr:
  "molecule_fw lib min_vac cmd db mv = Inr fw \<Longrightarrow>
   parents fw = [] \<and> m_struct_of lib min_vac (fst mv) = Inr (fw_structure fw)
   \<and> sites (fw_structure fw) \<noteq> []"
  by (auto simp: molecule_fw_def new_DictSet_def OptimizeFW_def
      split: sum.splits option.splits py_value.splits if_splits)

lemma get_wf_molecules_Inr:
  assumes "get_wf_molecules lib molecules viss min_vac cmd db = Inr w"
    and "i < length (wf_fws w)"
  shows "i < length molecules \<and> parents (wf_fws w ! i) = []
         \<and> m_struct_of lib min_vac (molecules ! i) = Inr (fw_structure (wf_fws w ! i))
         \<and> sites (fw_structure (wf_fws w ! i)) \<noteq> []"
proof -
  define vs where "vs = (case viss of
                    None \<Rightarrow> map (\<lambda>m. None) molecules
                  | Some l \<Rightarrow> (if l = [] then map (\<lambda>m. None) molecules else l))"
  from assms(1) obtain jobs
    where c: "comprehension (molecule_fw lib min_vac cmd db) (zip molecules vs) = Inr jobs"
    and w: "w = Workflow jobs ''Molecule calculations''"
    by (auto simp: get_wf_molecules_def Let_def vs_def split: sum.splits)
  from comprehension_nth [OF c] have len: "length jobs = length (zip molecules vs)"
    and each: "\<forall>i < length (zip molecules vs).
                 molecule_fw lib min_vac cmd db (zip molecules vs ! i) = Inr (jobs ! i)"
    by simp_all
  have i: "i < length (zip molecules vs)" using assms(2) w len by (simp add: Workflow_def)
  then have "molecule_fw lib min_vac cmd db (molecules ! i, vs ! i) = Inr (jobs ! i)"
    using each by simp
  from molecule_fw_Inr [OF this] i w show ?thesis by (simp add: Workflow_def)
qed

lemmas ex_molecule_eval =
  get_wf_molecules_def molecule_fw_def m_struct_of_def Structure_cubic_cartesian_def
  cubic_site_def species_and_occu_def cart_coords_def centring_vector_def
  translate_sites_def translate_site_def fadd3_def to_unit_cell3_def
  ex_lib_def ex_average_def average_def ex_fractional_coords_def
  new_MPRelaxSet_def new_DictSet_def dict_update_def Let_def Workflow_def

lemma ex_molecule_run:
  "get_wf_molecules ex_lib [ex_dimer, ex_dimer] None 16 ''vasp'' None = Inr ex_molecules_wf"
  by (simp add: ex_molecule_eval ex_dimer_def ex_molecules_wf_def ex_dimer_fw_def
      ex_dimer_struct_def)

text \<open>
  C9. In a workflow returned by \<^verbatim>\<open>get_wf_molecules\<close> no job has a parent: there is no
  dependency edge.
\<close>

theorem molecule_jobs_have_no_parents:
  assumes "get_wf_molecules lib molecules viss min_vac cmd db = Inr w"
  shows "\<forall>fw \<in> set (wf_fws w). parents fw = []"
  using get_wf_molecules_Inr [OF assms] by (auto simp: in_set_conv_nth)

theorem molecule_jobs_have_no_parents_witness:
  "get_wf_molecules ex_lib [ex_dimer, ex_dimer] None 16 ''vasp'' None = Inr ex_molecules_wf
   \<and> map parents (wf_fws ex_molecules_wf) = [[], []]"
  using molecule_jobs_have_no_parents [OF ex_molecule_run] ex_molecule_run
  by (simp add: ex_molecules_wf_def Workflow_def)

subsection \<open>Centring\<close>















section \<open>Two defects\<close>

lemmas ex_eval =
  get_wf_adsorption_def wf_from_slabs_def normalized_structure_def
  state_after_bulk_def bulk_fw_def bulk_input_set_def slab_body_def molecule_body_def
  struct_body_def Let_def ex_max_111 mi_string_111 mi_string_100
  ex_args_def ex_lib_def dict_get_def dict_update_def dipole_dict_def
  ex_slab_sel ex_candidate_def add_site_property_def lattice_a_def lattice_b_def
  Lattice_cubic_def round_ratio_def ex_fdiv_a ex_fdiv_b py_round_a py_round_b
  from_scaling_factors_def slab_trans_params_of_def trans_ads_def Workflow_def

text \<open>
  C4. The slab generation is given the caller's \<^verbatim>\<open>center_slab\<close> (line 126), but the
  parameters of the slab cut carry the constant \<^verbatim>\<open>True\<close> (line 151): with
  \<^verbatim>\<open>center_slab=False\<close> the slab job still says \<^verbatim>\<open>center_slab: True\<close>.
\<close>

theorem slab_job_centering_flag_is_constant:
  "center_slab ex_uncentred_args = False
   \<and> map transformation_params (returned_jobs (fst (get_wf_adsorption ex_lib ex_uncentred_args))) ! 1
       = [SlabParams \<lparr>tp_miller_index = [1, 1, 1], tp_min_slab_size = 7,
                       tp_min_vacuum_size = 12, tp_shift = 0, tp_center_slab = True,
                       tp_max_normal_search = 1\<rparr>]"
  by (simp add: ex_uncentred_args_def ex_eval returned_jobs_def TransmuterFW_def OptimizeFW_def)

text \<open>
  C3. The default dictionaries are shared by all calls. After one call with the
  automatic dipole correction they hold the dipole keys; a later call without the
  correction, with the same arguments as a first call in a fresh interpreter, builds
  its slab and adsorbate input sets with those keys, where the fresh call builds them
  without.
\<close>

theorem default_incar_params_leak_between_calls:
  "snd (get_wf_adsorption_default_incar ex_lib initial_defaults (ex_args [(''111'', [h2])]))
     = \<lparr>default_slab_incar_params = ex_incar, default_ads_incar_params = ex_incar\<rparr>
   \<and> map fw_vasp_input_set (returned_jobs (fst
         (get_wf_adsorption_default_incar ex_lib initial_defaults ex_no_dipole_args)))
       = [MVLSlabSet ex_bulk True [],
          MVLSlabSet (slab_structure (ex_slab [1, 1, 1])) False [(''LDAU'', VBool False)],
          MVLSlabSet ex_bulk False [(''LDAU'', VBool False)]]
   \<and> map fw_vasp_input_set (returned_jobs (fst
         (get_wf_adsorption_default_incar ex_lib
            (snd (get_wf_adsorption_default_incar ex_lib initial_defaults
                    (ex_args [(''111'', [h2])])))
            ex_no_dipole_args)))
       = [MVLSlabSet ex_bulk True [],
          MVLSlabSet (slab_structure (ex_slab [1, 1, 1])) False ex_incar,
          MVLSlabSet ex_bulk False ex_incar]"
  by (simp add: get_wf_adsorption_default_incar_def initial_defaults_def ex_no_dipole_args_def
      ex_eval returned_jobs_def TransmuterFW_def OptimizeFW_def ex_incar_def)

end
